theory Spec2Isabelle
  imports Main "HOL-Library.Sublist"
begin

section \<open>The watcher of index.js as a transition system\<close>

text \<open>
  The program is one event handler, registered with the file watcher for three paths.
  The handler is an async function: it runs synchronously up to its first
  \<^verbatim>\<open>await\<close>, and is resumed when the awaited promise settles. The model is a
  transition system. Its state holds what the handler reads and writes (the status
  lines, the \<^verbatim>\<open>subprocesses\<close> table, the promises awaited, the disk, the
  terminal, the exit status); its actions are what the environment does: the watcher
  reports an event, or an awaited promise settles with the result of the external tool.
\<close>

subsection \<open>Paths and texts\<close>

abbreviation index :: string where "index \<equiv> ''index.html''"
abbreviation sass :: string where "sass \<equiv> ''src/main.scss''"
abbreviation js :: string where "js \<equiv> ''src/main.js''"
abbreviation public_index :: string where "public_index \<equiv> ''public/index.html''"
abbreviation public_css :: string where "public_css \<equiv> ''public/main.css''"
abbreviation public_js :: string where "public_js \<equiv> ''public/main.js''"

text \<open>
  A string is a list of bytes. The two signs of the status texts are outside ASCII and
  stand as their UTF-8 bytes: the multiplication sign and the square root sign.
\<close>

definition times_sign :: string where
  "times_sign = [CHR 0xC3, CHR 0x97]"

definition root_sign :: string where
  "root_sign = [CHR 0xE2, CHR 0x88, CHR 0x9A]"

text \<open>
  \<^verbatim>\<open>chalk.red(t)\<close> is kept symbolic: the text together with its colour.
\<close>

datatype styled = Plain string | Red string

text \<open>
  What reaches the terminal: a status line written (created or replaced in place), a
  status line taken away, a message on the error channel.
\<close>

datatype emitted = StatusLine string styled | StatusRemoved string | ConsoleError styled

subsection \<open>Errors\<close>

text \<open>
  A thrown value, with the properties the handler reads. A property that is
  \<^verbatim>\<open>undefined\<close> is \<open>False\<close> for the two flags and \<open>None\<close> for the
  texts. \<^verbatim>\<open>new Error(m)\<close> has the message only; a file system error has a code
  and a path as well; the error of a subprocess has \<open>failed\<close> set and carries what
  the process wrote.
\<close>

record js_error =
  isCanceled :: bool
  failed :: bool
  stderr :: "string option"
  stdout :: "string option"
  message :: string
  code :: "string option"
  path :: "string option"

definition new_Error :: "string \<Rightarrow> js_error" where
  "new_Error m =
     \<lparr>isCanceled = False, failed = False, stderr = None, stdout = None,
      message = m, code = None, path = None\<rparr>"

definition SystemError :: "string \<Rightarrow> string \<Rightarrow> string \<Rightarrow> js_error" where
  "SystemError c p m =
     \<lparr>isCanceled = False, failed = False, stderr = None, stdout = None,
      message = m, code = Some c, path = Some p\<rparr>"

text \<open>
  The rejection of a subprocess that was killed by \<^verbatim>\<open>cancel()\<close> while it ran.
\<close>

definition canceled :: js_error where
  "canceled =
     \<lparr>isCanceled = True, failed = True, stderr = Some [], stdout = Some [],
      message = ''Command was canceled'', code = None, path = None\<rparr>"

text \<open>JavaScript truthiness of a text property: defined and not empty.\<close>

definition truthy :: "string option \<Rightarrow> bool" where
  "truthy v = (case v of None \<Rightarrow> False | Some t \<Rightarrow> t \<noteq> [])"

text \<open>\<^verbatim>\<open>error.stderr || error.stdout || error.message\<close>\<close>

definition detail :: "js_error \<Rightarrow> string" where
  "detail e =
     (case stderr e of
        Some t \<Rightarrow> if t \<noteq> [] then t else
          (case stdout e of Some u \<Rightarrow> if u \<noteq> [] then u else message e | None \<Rightarrow> message e)
      | None \<Rightarrow>
          (case stdout e of Some u \<Rightarrow> if u \<noteq> [] then u else message e | None \<Rightarrow> message e))"

text \<open>\<^verbatim>\<open>error.failed && (!error.stderr && !error.stdout)\<close>\<close>

definition silent :: "js_error \<Rightarrow> bool" where
  "silent e = (failed e \<and> \<not> truthy (stderr e) \<and> \<not> truthy (stdout e))"

subsection \<open>Status texts\<close>

definition buildingMessage :: "string \<Rightarrow> styled" where
  "buildingMessage file = Plain (''- building '' @ file)"

definition builtMessage :: "string \<Rightarrow> styled" where
  "builtMessage file = Plain (root_sign @ '' built '' @ file)"

definition errorText :: "string \<Rightarrow> js_error \<Rightarrow> string" where
  "errorText file e =
     times_sign @ '' error building '' @ file @ [CHR 0x0A] @ '' '' @ detail e"

definition unexpectedText :: "string \<Rightarrow> js_error \<Rightarrow> string" where
  "unexpectedText file e =
     ''There was an unexpected error building '' @ file @ '':'' @ [CHR 0x0A, CHR 0x0A]
       @ message e"

definition noIndexNotice :: styled where
  "noIndexNotice =
     Plain (''! your web page won'' @ [CHR 0x27] @ ''t be visible until we create index.html'')"

definition notAFile :: string where
  "notAFile =
     ''Could not copy '' @ [CHR 0x22] @ ''index.html'' @ [CHR 0x22] @ ''. Is it a file?''"

subsection \<open>The state\<close>

datatype node = File string | Directory

text \<open>
  A promise the handler awaits: the subprocess of the Sass compiler, the PostCSS run on
  the CSS given to it, or the bundler's build. \<open>cancel_called\<close> records that the
  handler has called \<^verbatim>\<open>cancel()\<close> on the subprocess.
\<close>

datatype awaited = Execa | Postcss string | Esbuild

record task =
  task_file :: string
  awaiting :: awaited
  cancel_called :: bool

text \<open>
  Two things the program does not decide are part of the state. \<open>fault_on_write\<close>
  is the fault, if any, the file system answers a write of a file with (no permission,
  a full disk): the code and the message of the error it throws, and the text the file
  is left with when the write has begun (\<open>None\<close> when the file is untouched).
  \<open>rejections\<close> is what the runtime does with a rejected promise nobody handles: it
  ends the process with status 1 (\<open>Throw\<close>, the default since Node 15) or only
  prints a warning (\<open>Warn\<close>).
\<close>

record write_fault =
  fault_code :: string
  fault_message :: string
  fault_leaves :: "string option"

datatype rejection_mode = Throw | Warn

record state =
  spinners :: "string \<rightharpoonup> styled"
  subprocesses :: "string \<rightharpoonup> nat"
  pending :: "nat \<rightharpoonup> task"
  next_handle :: nat
  disk :: "string \<rightharpoonup> node"
  terminal :: "emitted list"
  exit_code :: "int option"
  unhandled :: "js_error list"
  fault_on_write :: "write_fault option"
  rejections :: rejection_mode

text \<open>What a user can see of a state.\<close>

definition observable ::
  "state \<Rightarrow> (string \<rightharpoonup> styled) \<times> (string \<rightharpoonup> node) \<times> emitted list \<times> int option \<times> js_error list" where
  "observable s = (spinners s, disk s, terminal s, exit_code s, unhandled s)"

subsection \<open>The status display\<close>

text \<open>
  The three operations of the status display the handler calls, each with what it puts
  on the terminal. \<^verbatim>\<open>add\<close> creates the line of a name or replaces it,
  \<^verbatim>\<open>update\<close> replaces it in place and throws when no line of that name exists
  (the handler's own \<^verbatim>\<open>try { update } catch { add }\<close> rests on it),
  \<^verbatim>\<open>remove\<close> takes the line away.
\<close>

definition spinnies_add :: "string \<Rightarrow> styled \<Rightarrow> state \<Rightarrow> state" where
  "spinnies_add name t s =
     s\<lparr>spinners := (spinners s)(name \<mapsto> t), terminal := terminal s @ [StatusLine name t]\<rparr>"

definition spinnies_update :: "string \<Rightarrow> styled \<Rightarrow> state \<Rightarrow> js_error + state" where
  "spinnies_update name t s =
     (case spinners s name of
        None \<Rightarrow> Inl (new_Error (''No spinner initialized with name '' @ name))
      | Some _ \<Rightarrow> Inr (spinnies_add name t s))"

definition spinnies_remove :: "string \<Rightarrow> state \<Rightarrow> state" where
  "spinnies_remove name s =
     s\<lparr>spinners := (spinners s)(name := None), terminal := terminal s @ [StatusRemoved name]\<rparr>"

subsection \<open>Subprocesses and promises\<close>

text \<open>
  \<^verbatim>\<open>cancel()\<close> on a subprocess handle asks for the process to be killed. The
  handler does no more than call it: the call is recorded on the promise of a
  subprocess that is still awaited, and is nothing on one that has settled. How the
  promise then settles is the subprocess library's doing and comes with the action that
  settles it: a process that was killed rejects with \<open>isCanceled\<close>, one that had
  already done its work may still resolve.
\<close>

definition cancel :: "nat \<Rightarrow> state \<Rightarrow> state" where
  "cancel h s =
     (case pending s h of
        None \<Rightarrow> s
      | Some t \<Rightarrow>
          (case awaiting t of
             Execa \<Rightarrow> s\<lparr>pending := (pending s)(h \<mapsto> t\<lparr>cancel_called := True\<rparr>)\<rparr>
           | _ \<Rightarrow> s))"

text \<open>The handler suspends at an \<^verbatim>\<open>await\<close>: the promise gets the next handle.\<close>

definition await :: "string \<Rightarrow> awaited \<Rightarrow> state \<Rightarrow> state" where
  "await file a s =
     s\<lparr>pending := (pending s)(next_handle s \<mapsto>
          \<lparr>task_file = file, awaiting = a, cancel_called = False\<rparr>),
       next_handle := Suc (next_handle s)\<rparr>"

text \<open>\<^verbatim>\<open>subprocesses[file] = execa(...); await subprocesses[file]\<close>\<close>

definition execa :: "string \<Rightarrow> state \<Rightarrow> state" where
  "execa file s = await file Execa (s\<lparr>subprocesses := (subprocesses s)(file \<mapsto> next_handle s)\<rparr>)"

subsection \<open>The CSS handed to PostCSS\<close>

fun starts_with :: "string \<Rightarrow> string \<Rightarrow> bool" where
  "starts_with [] cs = True"
| "starts_with (p # ps) [] = False"
| "starts_with (p # ps) (c # cs) = (p = c \<and> starts_with ps cs)"

text \<open>
  \<^verbatim>\<open>String.prototype.replace\<close> with a string pattern: the first occurrence of the
  pattern is replaced, the rest of the text is kept.
\<close>

fun replace_first :: "string \<Rightarrow> string \<Rightarrow> string \<Rightarrow> string" where
  "replace_first pat rep [] = (if pat = [] then rep else [])"
| "replace_first pat rep (c # cs) =
     (if starts_with pat (c # cs) then rep @ drop (length pat) (c # cs)
      else c # replace_first pat rep cs)"

definition charset_pattern :: string where
  "charset_pattern = ''application/json;charset=utf-8,''"

definition charset_replacement :: string where
  "charset_replacement = ''application/json,''"

definition strip_charset :: "string \<Rightarrow> string" where
  "strip_charset css = replace_first charset_pattern charset_replacement css"

text \<open>Whether a text occurs in another, as a computation.\<close>

fun contains :: "string \<Rightarrow> string \<Rightarrow> bool" where
  "contains pat [] = (pat = [])"
| "contains pat (c # cs) = (starts_with pat (c # cs) \<or> contains pat cs)"

subsection \<open>Reading and writing files\<close>

text \<open>
  \<^verbatim>\<open>fs.copyFileSync(src, dst)\<close>. Whether the copy is made is the file system's
  answer and comes with the event: \<open>Copied\<close>, or \<open>CopyThrows e removed\<close>, the
  error thrown and whether the failed copy has removed a destination that was there.
  A copy that is made leaves at the destination what is at the source.
\<close>

datatype copy_result = Copied | CopyThrows js_error bool

definition copyFileSync ::
  "copy_result \<Rightarrow> string \<Rightarrow> string \<Rightarrow> state \<Rightarrow> js_error \<times> state + state" where
  "copyFileSync io src dst s =
     (case io of
        Copied \<Rightarrow> Inr (s\<lparr>disk := (disk s)(dst := disk s src)\<rparr>)
      | CopyThrows e removed \<Rightarrow>
          Inl (e, if removed then s\<lparr>disk := (disk s)(dst := None)\<rparr> else s))"

text \<open>
  The file system answers \<open>Copied\<close> only for a source that is a regular file and a
  destination that is not a directory.
\<close>

definition answers :: "copy_result \<Rightarrow> node option \<Rightarrow> node option \<Rightarrow> bool" where
  "answers io src dst =
     (case io of
        CopyThrows e removed \<Rightarrow> True
      | Copied \<Rightarrow>
          (case src of
             Some (File bytes) \<Rightarrow> dst \<noteq> Some Directory
           | Some Directory \<Rightarrow> False
           | None \<Rightarrow> False))"

text \<open>
  \<^verbatim>\<open>fs.writeFileSync(p, data)\<close> throws when a directory is at \<open>p\<close>, and when
  the file system has a fault of its own; otherwise the file holds the data. The program
  resolves the path against the working directory; here it stays relative, in the
  message as everywhere. The error the write throws, if any:
\<close>

definition write_error :: "string \<Rightarrow> state \<Rightarrow> js_error option" where
  "write_error p s =
     (case disk s p of
        Some Directory \<Rightarrow>
          Some (SystemError ''EISDIR'' p
                 (''EISDIR: illegal operation on a directory, open '' @ [CHR 0x27] @ p @ [CHR 0x27]))
      | _ \<Rightarrow>
          (case fault_on_write s of
             None \<Rightarrow> None
           | Some w \<Rightarrow> Some (SystemError (fault_code w) p (fault_message w))))"

definition writeFileSync :: "string \<Rightarrow> string \<Rightarrow> state \<Rightarrow> js_error \<times> state + state" where
  "writeFileSync p data s =
     (case write_error p s of
        None \<Rightarrow> Inr (s\<lparr>disk := (disk s)(p \<mapsto> File data)\<rparr>)
      | Some e \<Rightarrow>
          (case disk s p of
             Some Directory \<Rightarrow> Inl (e, s)
           | _ \<Rightarrow>
               (case fault_on_write s of
                  None \<Rightarrow> Inl (e, s)
                | Some w \<Rightarrow>
                    (case fault_leaves w of
                       None \<Rightarrow> Inl (e, s)
                     | Some t \<Rightarrow> Inl (e, s\<lparr>disk := (disk s)(p \<mapsto> File t)\<rparr>)))))"

subsection \<open>The catch block\<close>

text \<open>
  A rejection of the handler's promise is handled by nobody: the runtime ends the
  process with status 1, or goes on after a warning.
\<close>

definition unhandledRejection :: "js_error \<Rightarrow> state \<Rightarrow> state" where
  "unhandledRejection e s =
     (case rejections s of
        Throw \<Rightarrow> s\<lparr>unhandled := unhandled s @ [e], exit_code := Some 1\<rparr>
      | Warn \<Rightarrow> s\<lparr>unhandled := unhandled s @ [e]\<rparr>)"

text \<open>
  A cancelled subprocess is ignored. An error of a subprocess that wrote nothing is
  reported on the error channel and ends the process: nothing after
  \<^verbatim>\<open>process.exit(1)\<close> runs. Every other error is written to the status line of
  the file; when that line does not exist the update throws inside the catch block, and
  the handler's promise rejects.
\<close>

definition handler_catch :: "string \<Rightarrow> js_error \<Rightarrow> state \<Rightarrow> state" where
  "handler_catch file e s =
     (if isCanceled e then s
      else if silent e then
        s\<lparr>terminal := terminal s @ [ConsoleError (Red (unexpectedText file e))],
          exit_code := Some 1\<rparr>
      else
        (case spinnies_update file (Red (errorText file e)) s of
           Inr s' \<Rightarrow> s'
         | Inl e' \<Rightarrow> unhandledRejection e' s))"

text \<open>
  The last statement of a pipeline, \<^verbatim>\<open>spinnies.update(file, built)\<close>, inside the
  \<^verbatim>\<open>try\<close>.
\<close>

definition report_built :: "string \<Rightarrow> state \<Rightarrow> state" where
  "report_built file s =
     (case spinnies_update file (builtMessage file) s of
        Inr s' \<Rightarrow> s'
      | Inl e \<Rightarrow> handler_catch file e s)"

subsection \<open>The handler, up to its first await\<close>

text \<open>
  The handler begins with the building text, then cancels the subprocess registered for
  the file, if any. An unlink event returns from the two branches that follow. The three
  \<^verbatim>\<open>if\<close> statements after them test the file against three different paths, so
  at most one of them runs and they are a chain here. The Sass and the JavaScript branch
  suspend at their first \<^verbatim>\<open>await\<close>; the HTML branch copies synchronously and
  runs to its end. A path other than the three gets the building text and nothing else.
\<close>

definition notify_building :: "string \<Rightarrow> state \<Rightarrow> state" where
  "notify_building file s =
     (case spinnies_update file (buildingMessage file) s of
        Inr s' \<Rightarrow> s'
      | Inl _ \<Rightarrow> spinnies_add file (buildingMessage file) s)"

definition cancel_running :: "string \<Rightarrow> state \<Rightarrow> state" where
  "cancel_running file s =
     (case subprocesses s file of None \<Rightarrow> s | Some h \<Rightarrow> cancel h s)"

definition copy_error :: "js_error \<Rightarrow> js_error" where
  "copy_error e =
     (if code e = Some ''ENOTSUP'' \<and> path e = Some ''index.html''
      then new_Error notAFile else e)"

definition build_html :: "string \<Rightarrow> copy_result \<Rightarrow> state \<Rightarrow> state" where
  "build_html file io s =
     (case copyFileSync io file public_index s of
        Inr s' \<Rightarrow> report_built file s'
      | Inl (e, s') \<Rightarrow> handler_catch file (copy_error e) s')"

definition handler :: "string \<Rightarrow> string \<Rightarrow> copy_result \<Rightarrow> state \<Rightarrow> state" where
  "handler event file io s0 =
     (let s = cancel_running file (notify_building file s0) in
      if (file = sass \<or> file = js) \<and> event = ''unlink'' then spinnies_remove file s
      else if file = index \<and> event = ''unlink'' then
        (case spinnies_update file (Plain ''! missing index.html'') s of
           Inr s' \<Rightarrow> s'
         | Inl e \<Rightarrow> handler_catch file e s)
      else if file = sass then execa file s
      else if file = js then await file Esbuild s
      else if file = index then build_html file io s
      else s)"

text \<open>The events on which the handler reaches the copy.\<close>

definition copies :: "string \<Rightarrow> string \<Rightarrow> bool" where
  "copies event file = (file = index \<and> event \<noteq> ''unlink'')"

subsection \<open>The handler, resumed when a promise settles\<close>

text \<open>
  The promise \<open>h\<close> settles with \<open>r\<close>: \<open>Inl\<close> an error it rejects with,
  \<open>Inr\<close> the text the tool produced. After the compiler, its
  \<^verbatim>\<open>stdout\<close> has the charset taken out and PostCSS is awaited on it; after PostCSS,
  the CSS is written to public/main.css and the built text is shown. The bundler writes
  public/main.js itself before its promise resolves, so its promise does not resolve
  while a directory is at public/main.js: that settlement does not occur. Every
  rejection goes to the catch block, and so does an error the write throws.
\<close>

definition resume :: "nat \<Rightarrow> js_error + string \<Rightarrow> state \<Rightarrow> state" where
  "resume h r s0 =
     (case pending s0 h of
        None \<Rightarrow> s0
      | Some t \<Rightarrow>
          (let s = s0\<lparr>pending := (pending s0)(h := None)\<rparr>; file = task_file t in
           case awaiting t of
             Execa \<Rightarrow>
               (case r of
                  Inl e \<Rightarrow> handler_catch file e s
                | Inr css \<Rightarrow> await file (Postcss (strip_charset css)) s)
           | Postcss input \<Rightarrow>
               (case r of
                  Inl e \<Rightarrow> handler_catch file e s
                | Inr css \<Rightarrow>
                    (case writeFileSync public_css css s of
                       Inr s' \<Rightarrow> report_built file s'
                     | Inl (e, s') \<Rightarrow> handler_catch file e s'))
           | Esbuild \<Rightarrow>
               (case r of
                  Inl e \<Rightarrow> handler_catch file e s
                | Inr bundle \<Rightarrow>
                    (case disk s public_js of
                       Some Directory \<Rightarrow> s0
                     | _ \<Rightarrow>
                         report_built file
                           (s\<lparr>disk := (disk s)(public_js \<mapsto> File bundle)\<rparr>)))))"

subsection \<open>Actions and runs\<close>

text \<open>
  The watcher reports an event for a file, together with the answer of the file system
  to the copy the handler may make, or an awaited promise settles. A process that has
  exited does nothing more. An action the environment cannot perform does not occur and
  leaves the state as it is: a promise that is not awaited does not settle, and the
  file system does not answer \<open>Copied\<close> where no regular file is at the source or
  a directory is at the destination.
\<close>

datatype action = Watch string string copy_result | Settle nat "js_error + string"

fun step :: "state \<Rightarrow> action \<Rightarrow> state" where
  "step s (Watch event file io) =
     (if exit_code s \<noteq> None then s
      else if copies event file \<and> \<not> answers io (disk s file) (disk s public_index) then s
      else handler event file io s)"
| "step s (Settle h r) = (if exit_code s = None then resume h r s else s)"

definition run :: "state \<Rightarrow> action list \<Rightarrow> state" where
  "run s as = foldl step s as"

subsection \<open>Startup\<close>

text \<open>
  The part of the startup that touches the status display: the check for index.html
  before the watcher is started. The directory public is created and the server is
  started before it; neither writes a status line.
\<close>

definition existsSync :: "(string \<rightharpoonup> node) \<Rightarrow> string \<Rightarrow> bool" where
  "existsSync d p = (d p \<noteq> None)"

definition statSync :: "(string \<rightharpoonup> node) \<Rightarrow> string \<Rightarrow> node option" where
  "statSync d p = d p"

fun isFile :: "node \<Rightarrow> bool" where
  "isFile (File _) = True"
| "isFile Directory = False"

definition initial :: "(string \<rightharpoonup> node) \<Rightarrow> state" where
  "initial d =
     \<lparr>spinners = Map.empty, subprocesses = Map.empty, pending = Map.empty, next_handle = 0,
      disk = d, terminal = [], exit_code = None, unhandled = [],
      fault_on_write = None, rejections = Throw\<rparr>"

definition startup :: "(string \<rightharpoonup> node) \<Rightarrow> state" where
  "startup d =
     (let indexStats = (if existsSync d index then statSync d index else None) in
      case indexStats of
        None \<Rightarrow> spinnies_add index noIndexNotice (initial d)
      | Some st \<Rightarrow>
          if \<not> isFile st then spinnies_add index noIndexNotice (initial d) else initial d)"

subsection \<open>Values used in the properties\<close>

text \<open>
  The error of a subprocess that ended with a failure: \<open>failed\<close> is set, and
  \<open>stderr\<close> and \<open>stdout\<close> hold what the process wrote.
\<close>

definition execa_failure :: "string \<Rightarrow> string \<Rightarrow> string \<Rightarrow> js_error" where
  "execa_failure err out m =
     \<lparr>isCanceled = False, failed = True, stderr = Some err, stdout = Some out,
      message = m, code = None, path = None\<rparr>"

section \<open>Properties\<close>

subsection \<open>How each operation changes the state\<close>

lemma notify_building_add: "notify_building file s = spinnies_add file (buildingMessage file) s"
  by (simp add: notify_building_def spinnies_update_def split: option.splits)

lemma handler_catch_canceled: "isCanceled e \<Longrightarrow> handler_catch file e s = s"
  by (simp add: handler_catch_def)

lemma handler_catch_silent:
  "\<not> isCanceled e \<Longrightarrow> silent e \<Longrightarrow>
   handler_catch file e s =
     s\<lparr>terminal := terminal s @ [ConsoleError (Red (unexpectedText file e))], exit_code := Some 1\<rparr>"
  by (simp add: handler_catch_def)

lemma handler_catch_shown:
  "\<not> isCanceled e \<Longrightarrow> \<not> silent e \<Longrightarrow> spinners s file \<noteq> None \<Longrightarrow>
   handler_catch file e s = spinnies_add file (Red (errorText file e)) s"
  by (auto simp add: handler_catch_def spinnies_update_def split: option.splits)


lemma drop_settled: "pending s h = None \<Longrightarrow> s\<lparr>pending := (pending s)(h := None)\<rparr> = s"
  by (cases s) (simp add: fun_upd_idem)

lemma cancel_fields [simp]:
  "spinners (cancel h s) = spinners s"
  "subprocesses (cancel h s) = subprocesses s"
  "next_handle (cancel h s) = next_handle s"
  "disk (cancel h s) = disk s"
  "terminal (cancel h s) = terminal s"
  "exit_code (cancel h s) = exit_code s"
  "unhandled (cancel h s) = unhandled s"
  "fault_on_write (cancel h s) = fault_on_write s"
  "rejections (cancel h s) = rejections s"
  by (simp_all add: cancel_def split: option.splits awaited.splits)

lemma dom_pending_cancel [simp]: "dom (pending (cancel h s)) = dom (pending s)"
  by (auto simp add: cancel_def split: option.splits awaited.splits if_splits)

lemma cancel_running_fields [simp]:
  "spinners (cancel_running f s) = spinners s"
  "subprocesses (cancel_running f s) = subprocesses s"
  "next_handle (cancel_running f s) = next_handle s"
  "disk (cancel_running f s) = disk s"
  "terminal (cancel_running f s) = terminal s"
  "exit_code (cancel_running f s) = exit_code s"
  "unhandled (cancel_running f s) = unhandled s"
  "fault_on_write (cancel_running f s) = fault_on_write s"
  "rejections (cancel_running f s) = rejections s"
  "dom (pending (cancel_running f s)) = dom (pending s)"
  by (simp_all add: cancel_running_def split: option.splits)

lemma spinnies_add_fields [simp]:
  "spinners (spinnies_add f t s) = (spinners s)(f \<mapsto> t)"
  "subprocesses (spinnies_add f t s) = subprocesses s"
  "pending (spinnies_add f t s) = pending s"
  "next_handle (spinnies_add f t s) = next_handle s"
  "disk (spinnies_add f t s) = disk s"
  "terminal (spinnies_add f t s) = terminal s @ [StatusLine f t]"
  "exit_code (spinnies_add f t s) = exit_code s"
  "unhandled (spinnies_add f t s) = unhandled s"
  "fault_on_write (spinnies_add f t s) = fault_on_write s"
  "rejections (spinnies_add f t s) = rejections s"
  by (simp_all add: spinnies_add_def)

lemma spinnies_remove_fields [simp]:
  "spinners (spinnies_remove f s) = (spinners s)(f := None)"
  "subprocesses (spinnies_remove f s) = subprocesses s"
  "pending (spinnies_remove f s) = pending s"
  "next_handle (spinnies_remove f s) = next_handle s"
  "disk (spinnies_remove f s) = disk s"
  "terminal (spinnies_remove f s) = terminal s @ [StatusRemoved f]"
  "exit_code (spinnies_remove f s) = exit_code s"
  "unhandled (spinnies_remove f s) = unhandled s"
  "fault_on_write (spinnies_remove f s) = fault_on_write s"
  "rejections (spinnies_remove f s) = rejections s"
  by (simp_all add: spinnies_remove_def)

lemma await_fields [simp]:
  "spinners (await f a s) = spinners s"
  "subprocesses (await f a s) = subprocesses s"
  "pending (await f a s) =
     (pending s)(next_handle s \<mapsto> \<lparr>task_file = f, awaiting = a, cancel_called = False\<rparr>)"
  "next_handle (await f a s) = Suc (next_handle s)"
  "disk (await f a s) = disk s"
  "terminal (await f a s) = terminal s"
  "exit_code (await f a s) = exit_code s"
  "unhandled (await f a s) = unhandled s"
  "fault_on_write (await f a s) = fault_on_write s"
  "rejections (await f a s) = rejections s"
  by (simp_all add: await_def)

lemma execa_fields [simp]:
  "spinners (execa f s) = spinners s"
  "subprocesses (execa f s) = (subprocesses s)(f \<mapsto> next_handle s)"
  "pending (execa f s) =
     (pending s)(next_handle s \<mapsto> \<lparr>task_file = f, awaiting = Execa, cancel_called = False\<rparr>)"
  "next_handle (execa f s) = Suc (next_handle s)"
  "disk (execa f s) = disk s"
  "terminal (execa f s) = terminal s"
  "exit_code (execa f s) = exit_code s"
  "unhandled (execa f s) = unhandled s"
  "fault_on_write (execa f s) = fault_on_write s"
  "rejections (execa f s) = rejections s"
  by (simp_all add: execa_def)

lemma handler_catch_fields [simp]:
  "subprocesses (handler_catch f e s) = subprocesses s"
  "pending (handler_catch f e s) = pending s"
  "next_handle (handler_catch f e s) = next_handle s"
  "disk (handler_catch f e s) = disk s"
  "fault_on_write (handler_catch f e s) = fault_on_write s"
  "rejections (handler_catch f e s) = rejections s"
  by (simp_all add: handler_catch_def spinnies_update_def unhandledRejection_def
      split: option.splits rejection_mode.splits)

lemma report_built_fields [simp]:
  "subprocesses (report_built f s) = subprocesses s"
  "pending (report_built f s) = pending s"
  "next_handle (report_built f s) = next_handle s"
  "disk (report_built f s) = disk s"
  "fault_on_write (report_built f s) = fault_on_write s"
  "rejections (report_built f s) = rejections s"
  by (simp_all add: report_built_def spinnies_update_def split: option.splits)

lemmas concrete_defs =
  startup_def initial_def existsSync_def statSync_def run_def handler_def resume_def
  notify_building_def cancel_running_def cancel_def spinnies_update_def spinnies_add_def
  spinnies_remove_def await_def execa_def build_html_def report_built_def handler_catch_def
  unhandledRejection_def copyFileSync_def writeFileSync_def write_error_def answers_def
  copies_def copy_error_def silent_def truthy_def observable_def Let_def

lemmas error_defs = execa_failure_def SystemError_def new_Error_def canceled_def detail_def
  errorText_def unexpectedText_def buildingMessage_def builtMessage_def noIndexNotice_def
  notAFile_def times_sign_def root_sign_def

lemma plain_errors [simp]:
  "\<not> isCanceled (new_Error m)" "\<not> silent (new_Error m)" "detail (new_Error m) = m"
  "\<not> isCanceled (SystemError c p m)" "\<not> silent (SystemError c p m)"
  "detail (SystemError c p m) = m"
  by (simp_all add: new_Error_def SystemError_def silent_def detail_def)





subsection \<open>The catch block\<close>





subsection \<open>The handler\<close>

lemma handler_prefix:
  "handler ev f io s =
     (let s' = cancel_running f (spinnies_add f (buildingMessage f) s) in
      if (f = sass \<or> f = js) \<and> ev = ''unlink'' then spinnies_remove f s'
      else if f = index \<and> ev = ''unlink'' then spinnies_add f (Plain ''! missing index.html'') s'
      else if f = sass then execa f s'
      else if f = js then await f Esbuild s'
      else if f = index then build_html f io s'
      else s')"
  by (simp add: handler_def Let_def notify_building_add spinnies_update_def)

lemma step_watch:
  "exit_code s = None \<Longrightarrow> \<not> copies ev f \<or> answers io (disk s f) (disk s public_index) \<Longrightarrow>
   step s (Watch ev f io) = handler ev f io s"
  by auto




lemma no_copy_without_a_file:
  "ev \<noteq> ''unlink'' \<Longrightarrow> \<forall>bytes. disk s index \<noteq> Some (File bytes) \<Longrightarrow>
   step s (Watch ev index Copied) = s"
  by (auto simp add: copies_def answers_def split: option.splits node.splits)

lemma no_bundle_over_a_directory:
  "pending s h = Some t \<Longrightarrow> awaiting t = Esbuild \<Longrightarrow> disk s public_js = Some Directory \<Longrightarrow>
   step s (Settle h (Inr bundle)) = s"
  by (simp add: resume_def Let_def)



subsection \<open>Settling\<close>












subsection \<open>Runs\<close>





subsection \<open>The first occurrence of the pattern\<close>

lemma starts_with_append: "starts_with pat (pat @ post)"
  by (induction pat) simp_all

lemma replace_first_match:
  "starts_with pat cs \<Longrightarrow> replace_first pat rep cs = rep @ drop (length pat) cs"
  by (cases cs; cases pat) simp_all

lemma replace_first_at:
  "\<forall>k<length pre. \<not> starts_with pat (drop k (pre @ pat @ post)) \<Longrightarrow>
   replace_first pat rep (pre @ pat @ post) = pre @ rep @ post"
proof (induction pre)
  case Nil
  show ?case
    using replace_first_match [OF starts_with_append, of pat rep post] by simp
next
  case (Cons c pre)
  have "\<not> starts_with pat (c # pre @ pat @ post)"
    using Cons.prems by (auto dest: spec [of _ 0])
  moreover have "\<forall>k<length pre. \<not> starts_with pat (drop k (pre @ pat @ post))"
    using Cons.prems by (auto dest: spec [of _ "Suc k" for k])
  ultimately show ?case
    using Cons.IH by simp
qed

subsection \<open>A build, from its event to its end\<close>





subsection \<open>One build per path\<close>

text \<open>
  C1: at most one build is live for a path, and a new event for a path cancels the build
  of that path that still runs, for the HTML, the Sass and the JavaScript path alike.
  The handler enters only the Sass subprocess into \<^verbatim>\<open>subprocesses\<close>; the
  bundler's build is awaited and never entered, so for src/main.js there is nothing to
  cancel. Evaluated at two change events of src/main.js, the second arriving while the
  first build runs: both builds are awaited at once and neither is cancelled; when the
  newer settles first and the older last, both write the built status, and the bundle left
  on disk is the older one.
\<close>

theorem js_builds_run_together:
  "pending (run (startup Map.empty) [Watch ''change'' js Copied, Watch ''change'' js Copied]) 0
     = Some \<lparr>task_file = js, awaiting = Esbuild, cancel_called = False\<rparr>
   \<and> pending (run (startup Map.empty) [Watch ''change'' js Copied, Watch ''change'' js Copied]) 1
     = Some \<lparr>task_file = js, awaiting = Esbuild, cancel_called = False\<rparr>
   \<and> subprocesses (run (startup Map.empty) [Watch ''change'' js Copied, Watch ''change'' js Copied]) js
     = None
   \<and> terminal (run (startup Map.empty)
        [Watch ''change'' js Copied, Watch ''change'' js Copied,
         Settle 1 (Inr ''new''), Settle 0 (Inr ''old'')])
     = [StatusLine index noIndexNotice,
        StatusLine js (buildingMessage js), StatusLine js (buildingMessage js),
        StatusLine js (builtMessage js), StatusLine js (builtMessage js)]
   \<and> disk (run (startup Map.empty)
        [Watch ''change'' js Copied, Watch ''change'' js Copied,
         Settle 1 (Inr ''new''), Settle 0 (Inr ''old'')]) public_js
     = Some (File ''old'')"
  by (simp add: concrete_defs)

subsection \<open>Two events in a row\<close>




subsection \<open>The status texts of one event\<close>






subsection \<open>Failures and the exit status\<close>

text \<open>
  C4: a failure ends the process with exit status 1 exactly when it is a silent tool
  failure, and every failure with diagnostic text is shown on the status line of its
  path while the process keeps running. The catch block writes the error with
  \<^verbatim>\<open>spinnies.update\<close>, which throws when the line has been removed, and the
  build of src/main.js is not cancelled when the file is deleted. Evaluated at an add
  event of src/main.js, an unlink event of src/main.js while the bundler runs, and the
  bundler's failure with a diagnostic: the failure is neither a cancellation nor
  silent, nothing is shown for it, the handler's promise rejects, and the process ends
  with status 1. Where the runtime only warns about the rejection the process goes on,
  and the failure is not shown either.
\<close>

theorem diagnostic_failure_after_unlink:
  "\<not> isCanceled (new_Error ''Build failed with 1 error'')
   \<and> \<not> silent (new_Error ''Build failed with 1 error'')
   \<and> spinners (run (startup Map.empty)
        [Watch ''add'' js Copied, Watch ''unlink'' js Copied,
         Settle 0 (Inl (new_Error ''Build failed with 1 error''))]) js = None
   \<and> terminal (run (startup Map.empty)
        [Watch ''add'' js Copied, Watch ''unlink'' js Copied,
         Settle 0 (Inl (new_Error ''Build failed with 1 error''))])
     = [StatusLine index noIndexNotice, StatusLine js (Plain ''- building src/main.js''),
        StatusLine js (Plain ''- building src/main.js''), StatusRemoved js]
   \<and> exit_code (run (startup Map.empty)
        [Watch ''add'' js Copied, Watch ''unlink'' js Copied,
         Settle 0 (Inl (new_Error ''Build failed with 1 error''))]) = Some 1
   \<and> unhandled (run (startup Map.empty)
        [Watch ''add'' js Copied, Watch ''unlink'' js Copied,
         Settle 0 (Inl (new_Error ''Build failed with 1 error''))])
     = [new_Error ''No spinner initialized with name src/main.js'']
   \<and> pending (run (startup Map.empty) [Watch ''add'' js Copied, Watch ''unlink'' js Copied]) 0
     = Some \<lparr>task_file = js, awaiting = Esbuild, cancel_called = False\<rparr>
   \<and> exit_code (run ((startup Map.empty)\<lparr>rejections := Warn\<rparr>)
        [Watch ''add'' js Copied, Watch ''unlink'' js Copied,
         Settle 0 (Inl (new_Error ''Build failed with 1 error''))]) = None
   \<and> spinners (run ((startup Map.empty)\<lparr>rejections := Warn\<rparr>)
        [Watch ''add'' js Copied, Watch ''unlink'' js Copied,
         Settle 0 (Inl (new_Error ''Build failed with 1 error''))]) js = None"
  by (simp add: concrete_defs error_defs)

subsection \<open>Cancellation\<close>

text \<open>
  C5: a build whose promise settles with a cancellation signal has no observable effect.
  Whatever the state, when the awaited promise \<open>h\<close> rejects with an error that has
  \<open>isCanceled\<close> set, the state after the handler has run is the state before it, less
  the settled promise: no status line changes, nothing is written to the terminal or to
  the disk, the process does not exit and no rejection escapes.
\<close>

theorem canceled_settle_changes_nothing:
  "isCanceled e \<Longrightarrow>
   step s (Settle h (Inl e)) =
     (if exit_code s = None then s\<lparr>pending := (pending s)(h := None)\<rparr> else s)"
  by (simp add: resume_def Let_def handler_catch_canceled drop_settled
      split: option.splits awaited.splits)

theorem canceled_settle_changes_nothing_witness:
  "isCanceled canceled \<and>
   observable (step (step (startup Map.empty) (Watch ''add'' sass Copied)) (Settle 0 (Inl canceled)))
     = observable (step (startup Map.empty) (Watch ''add'' sass Copied)) \<and>
   pending (step (startup Map.empty) (Watch ''add'' sass Copied)) 0
     = Some \<lparr>task_file = sass, awaiting = Execa, cancel_called = False\<rparr>"
  using canceled_settle_changes_nothing
    [of canceled "step (startup Map.empty) (Watch ''add'' sass Copied)" 0]
  by (simp add: canceled_def concrete_defs)

subsection \<open>Deleted sources\<close>

text \<open>
  C6, with the text the handler writes for a deleted index.html. On an unlink event of
  the Sass or the JavaScript source the status line of that path is removed (after the
  building text the handler writes first) and no pipeline runs: no promise is awaited
  that was not awaited before and the disk is as it was. On an unlink event of the HTML
  source the status line of index.html is set to the text "! missing index.html", and no
  pipeline runs either.
\<close>

theorem unlink_event:
  assumes "exit_code s = None"
  shows "(f = sass \<or> f = js \<longrightarrow>
            spinners (step s (Watch ''unlink'' f io)) = (spinners s)(f := None)
          \<and> terminal (step s (Watch ''unlink'' f io))
              = terminal s @ [StatusLine f (Plain (''- building '' @ f)), StatusRemoved f]
          \<and> disk (step s (Watch ''unlink'' f io)) = disk s
          \<and> next_handle (step s (Watch ''unlink'' f io)) = next_handle s
          \<and> dom (pending (step s (Watch ''unlink'' f io))) = dom (pending s)
          \<and> exit_code (step s (Watch ''unlink'' f io)) = None)
       \<and> spinners (step s (Watch ''unlink'' index io))
           = (spinners s)(index \<mapsto> Plain ''! missing index.html'')
       \<and> terminal (step s (Watch ''unlink'' index io))
           = terminal s @ [StatusLine index (Plain ''- building index.html''),
                           StatusLine index (Plain ''! missing index.html'')]
       \<and> disk (step s (Watch ''unlink'' index io)) = disk s
       \<and> next_handle (step s (Watch ''unlink'' index io)) = next_handle s
       \<and> dom (pending (step s (Watch ''unlink'' index io))) = dom (pending s)
       \<and> exit_code (step s (Watch ''unlink'' index io)) = None"
  using assms
  by (auto simp add: handler_prefix Let_def copies_def buildingMessage_def)

theorem unlink_event_witness:
  "exit_code (run (startup Map.empty) [Watch ''add'' sass Copied]) = None
   \<and> spinners (run (startup Map.empty) [Watch ''add'' sass Copied, Watch ''unlink'' sass Copied]) sass
       = None
   \<and> terminal (run (startup Map.empty) [Watch ''add'' sass Copied, Watch ''unlink'' sass Copied])
       = [StatusLine index noIndexNotice, StatusLine sass (Plain ''- building src/main.scss''),
          StatusLine sass (Plain ''- building src/main.scss''), StatusRemoved sass]
   \<and> next_handle (run (startup Map.empty) [Watch ''add'' sass Copied, Watch ''unlink'' sass Copied])
       = 1
   \<and> spinners (run (startup Map.empty) [Watch ''add'' sass Copied, Watch ''unlink'' index Copied]) index
       = Some (Plain ''! missing index.html'')"
  using unlink_event [of "run (startup Map.empty) [Watch ''add'' sass Copied]" sass Copied]
  by (simp add: concrete_defs error_defs)

text \<open>
  C6 as stated has the deleted index.html shown with the missing-index notice, which is
  the text written at startup, "! your web page won't be visible until we create
  index.html". At an unlink event of index.html after it has been built, the status
  line reads "! missing index.html", which is another text.
\<close>

theorem deleted_index_has_its_own_text:
  "spinners (run (startup (Map.empty(index \<mapsto> File ''<p>hello</p>'')))
      [Watch ''add'' index Copied, Watch ''unlink'' index Copied]) index
     = Some (Plain ''! missing index.html'')
   \<and> noIndexNotice
     = Plain (''! your web page won'' @ [CHR 0x27] @ ''t be visible until we create index.html'')
   \<and> Plain ''! missing index.html'' \<noteq> noIndexNotice
   \<and> spinners (startup Map.empty) index = Some noIndexNotice"
  by (simp add: concrete_defs error_defs)

subsection \<open>The HTML pipeline\<close>

text \<open>
  C7: a copy that fails because index.html is not a regular file is shown with the text
  "Could not copy "index.html". Is it a file?". The handler rewrites the error only when
  its code is ENOTSUP. Evaluated with a directory at index.html and a copy that throws
  the error with code EISDIR, removing the destination: the status line shows the message
  of that error, and the text that asks whether it is a file is not in it. With the code
  ENOTSUP, in the same state, the text is shown.
\<close>

theorem directory_error_shown_raw:
  "disk (startup (Map.empty(index \<mapsto> Directory))) index = Some Directory
   \<and> spinners (run (startup (Map.empty(index \<mapsto> Directory)))
      [Watch ''addDir'' index
         (CopyThrows (SystemError ''EISDIR'' ''index.html''
            (''EISDIR: illegal operation on a directory, copyfile '' @ [CHR 0x27]
              @ ''index.html'' @ [CHR 0x27] @ '' -> '' @ [CHR 0x27] @ ''public/index.html''
              @ [CHR 0x27])) True)]) index
     = Some (Red ([CHR 0xC3, CHR 0x97] @ '' error building index.html'' @ [CHR 0x0A]
          @ '' EISDIR: illegal operation on a directory, copyfile '' @ [CHR 0x27]
              @ ''index.html'' @ [CHR 0x27] @ '' -> '' @ [CHR 0x27] @ ''public/index.html''
              @ [CHR 0x27]))
   \<and> \<not> contains (''Could not copy '' @ [CHR 0x22] @ ''index.html'' @ [CHR 0x22] @ ''. Is it a file?'')
        ([CHR 0xC3, CHR 0x97] @ '' error building index.html'' @ [CHR 0x0A]
          @ '' EISDIR: illegal operation on a directory, copyfile '' @ [CHR 0x27]
              @ ''index.html'' @ [CHR 0x27] @ '' -> '' @ [CHR 0x27] @ ''public/index.html''
              @ [CHR 0x27])
   \<and> spinners (run (startup (Map.empty(index \<mapsto> Directory)))
      [Watch ''addDir'' index
         (CopyThrows (SystemError ''ENOTSUP'' ''index.html''
            ''ENOTSUP: operation not supported on socket, copyfile'') False)]) index
     = Some (Red ([CHR 0xC3, CHR 0x97] @ '' error building index.html'' @ [CHR 0x0A]
          @ '' Could not copy '' @ [CHR 0x22] @ ''index.html'' @ [CHR 0x22] @ ''. Is it a file?''))"
  by (simp add: concrete_defs error_defs)

subsection \<open>The Sass pipeline\<close>





subsection \<open>The charset of the source map\<close>

text \<open>
  C9: the CSS handed to PostCSS never has the charset parameter in the declaration of
  the source map. \<^verbatim>\<open>css.replace\<close> with a string pattern replaces the first
  occurrence only. Evaluated at a CSS text of the compiler in which a rule holds the same
  data URI before the source map comment: the parameter is taken out of the rule, and
  the CSS handed to PostCSS still has it in the declaration of the source map.
\<close>

theorem charset_left_in_source_map:
  "strip_charset
     ''a{b:url(data:application/json;charset=utf-8,1)}/*# sourceMappingURL=data:application/json;charset=utf-8,%7B%7D */''
   = ''a{b:url(data:application/json,1)}/*# sourceMappingURL=data:application/json;charset=utf-8,%7B%7D */''
   \<and> pending (run (startup Map.empty)
        [Watch ''add'' sass Copied,
         Settle 0 (Inr ''a{b:url(data:application/json;charset=utf-8,1)}/*# sourceMappingURL=data:application/json;charset=utf-8,%7B%7D */'')]) 1
     = Some \<lparr>task_file = sass,
             awaiting = Postcss ''a{b:url(data:application/json,1)}/*# sourceMappingURL=data:application/json;charset=utf-8,%7B%7D */'',
             cancel_called = False\<rparr>
   \<and> contains charset_pattern
        ''a{b:url(data:application/json,1)}/*# sourceMappingURL=data:application/json;charset=utf-8,%7B%7D */''"
  by (simp add: strip_charset_def charset_pattern_def charset_replacement_def concrete_defs)

subsection \<open>Startup\<close>


end
